theory Spec2Isabelle
  imports Main
begin

section \<open>Night Mode 1.x (\<^verbatim>\<open>Night_Mode.py\<close>): data model\<close>

text \<open>
  The add-on is a Python module: its module-level variables are process-wide mutable
  state, and it reads and writes attributes of the host's main window \<^verbatim>\<open>mw\<close>.
  The model passes this state explicitly.  Three things the module takes from its
  surroundings are parameters of the model: the palette \<^verbatim>\<open>theme = wal()\<close> (module
  \<^verbatim>\<open>colors\<close>), whether \<^verbatim>\<open>appVersion.startswith('2.1')\<close> holds, and the host values
  captured into the \<^verbatim>\<open>nm_default_*\<close> variables at import.
\<close>

record theme =
  color1 :: string
  color3 :: string
  color4 :: string
  color7 :: string
  foreground :: string

text \<open>Exceptions the modelled code can raise, and the two warnings it shows.\<close>

datatype exn = AttributeError | IndexError

datatype warning = NM_ERROR_NO_PROFILE | NM_ERROR_SWITCH exn

text \<open>Calls into the host that only redraw or report; the model logs them in order.\<close>

datatype host_call =
    ShowWarning warning
  | Reviewer_initWeb
  | DeckBrowser_refresh
  | Overview_refresh
  | Toolbar_draw

text \<open>
  Values assigned once while the module is imported and never reassigned:
  lines 108-127 of \<^verbatim>\<open>Night_Mode.py\<close>, the palette and the host version.
\<close>

record nm_consts =
  theme :: theme
  appVersion_2_1 :: bool
  nm_default_css_menu :: string
  nm_default_css_top :: string
  nm_default_css_body :: string
  nm_default_reviewer_html :: string
  nm_default_css_bottom :: string
  nm_default_css_decks :: string
  nm_default_css_decks_bottom :: string
  nm_default_css_overview :: string
  nm_default_css_overview_bottom :: string
  nm_default_css_waiting_screen :: string
  DEFLAULT_COLOUR_MARKED :: string
  DEFLAULT_COLOUR_SUSPENDED :: string

text \<open>
  The mutable state.  A menu action variable is \<open>None\<close> while it holds Python's
  \<^verbatim>\<open>None\<close> and \<open>Some b\<close> once it holds a checkable \<^verbatim>\<open>QAction\<close> whose checked state
  is \<open>b\<close>.  The colour map is an association list in the order of the dict literal.
  The \<open>mw_\<close> fields are the attributes of the host's main window the module assigns,
  \<open>COLOUR_MARKED\<close> and \<open>COLOUR_SUSPENDED\<close> those of \<^verbatim>\<open>aqt.browser\<close>, and the three
  command lists those of \<^verbatim>\<open>anki.latex\<close> (each command is a list of words).
\<close>

record nm_state =
  nm_custom_color_map :: "(string \<times> string) list"
  nm_state_on :: bool
  nm_enable_in_dialogs :: bool
  nm_invert_image :: bool
  nm_invert_latex :: bool
  nm_transparent_latex :: bool
  nm_profile_loaded :: bool
  nm_menu_switch :: "bool option"
  nm_menu_iimage :: "bool option"
  nm_menu_ilatex :: "bool option"
  nm_menu_endial :: "bool option"
  nm_menu_tlatex :: "bool option"
  nm_color_bl :: string
  nm_color_td :: string
  nm_css_custom_colors :: string
  mw_styleSheet :: string
  mw_toolbar_css :: string
  mw_reviewer_css :: string
  mw_reviewer_revHtml :: string
  mw_reviewer_bottomCSS :: string
  mw_deckBrowser_css :: string
  mw_deckBrowser_bottom_css :: string
  mw_overview_css :: string
  mw_overview_bottom_css :: string
  mw_sharedCSS :: string
  mw_state :: string
  COLOUR_MARKED :: string
  COLOUR_SUSPENDED :: string
  pngCommands :: "string list list"
  svgCommands :: "string list list"
  latexCmds :: "string list list"
  host_calls :: "host_call list"

section \<open>Style sheet strings\<close>

text \<open>
  The module-level colour variables at import.  \<^verbatim>\<open>nm_color_bl\<close> and \<^verbatim>\<open>nm_color_td\<close>
  are reassigned later (they are fields of the state); the style constants below are
  built once, at import, from their first values.
\<close>

definition init_nm_color_bl :: "theme \<Rightarrow> string" where
  "init_nm_color_bl th = color1 th"

definition nm_color_tl :: "string" where
  "nm_color_tl = ''#ffffff''"

definition init_nm_color_td :: "theme \<Rightarrow> string" where
  "init_nm_color_td th = foreground th"

definition nm_color_al :: "theme \<Rightarrow> string" where
  "nm_color_al th = color4 th"

definition nm_color_ad :: "theme \<Rightarrow> string" where
  "nm_color_ad th = color3 th"

text \<open>
  \<^verbatim>\<open>nm_css_custom_color_map\<close>: one rule per entry of the colour map, in order.
\<close>

fun nm_css_custom_color_map_loop :: "string \<Rightarrow> (string \<times> string) list \<Rightarrow> string" where
  \<open>nm_css_custom_color_map_loop css [] = css\<close>
| \<open>nm_css_custom_color_map_loop css ((old, new) # items) =
     nm_css_custom_color_map_loop
       (css @ ''font[color="'' @ old @ ''"]{color:'' @ new @ ''!important}'') items\<close>

definition nm_css_custom_color_map :: "nm_state \<Rightarrow> string" where
  "nm_css_custom_color_map s = nm_css_custom_color_map_loop [] (nm_custom_color_map s)"

text \<open>
  \<^verbatim>\<open>nm_make_css_custom_colors_string\<close> reads the globals \<^verbatim>\<open>nm_color_td\<close> and
  \<^verbatim>\<open>nm_color_bl\<close>; they are arguments here because the function runs both at import
  and on every refresh.
\<close>

definition nm_make_css_custom_colors_string :: "string \<Rightarrow> string \<Rightarrow> string" where
  \<open>nm_make_css_custom_colors_string td bl =
     ''color:'' @
     td @
     '';\<newline>'' @
     ''background:'' @
     bl @
     '';''\<close>

definition nm_card_color_css :: "nm_state \<Rightarrow> string" where
  \<open>nm_card_color_css s =
     ''.card {    color:'' @
     nm_color_td s @
     ''!important;'' @
     ''background-color:#blue!important}''\<close>

definition nm_body_color_css :: "nm_state \<Rightarrow> string" where
  \<open>nm_body_color_css s =
     '' body {    color:'' @
     nm_color_td s @
     ''!important;'' @
     ''background-color:!important}''\<close>

definition nm_css_scrollbar :: "theme \<Rightarrow> string" where
  \<open>nm_css_scrollbar th =
     ''\<newline>'' @
     ''        QScrollBar:vertical {\<newline>'' @
     ''            width: 10px;\<newline>'' @
     ''            background: '' @
     color7 th @
     '';\<newline>'' @
     ''        }\<newline>'' @
     ''        QScrollBar::handle:vertical {\<newline>'' @
     ''            background: '' @
     color4 th @
     '';\<newline>'' @
     ''            min-height: 3px;\<newline>'' @
     ''            border-radius: 3px;\<newline>'' @
     ''            margin: 2px 2px 2px 2px;\<newline>'' @
     ''        }\<newline>'' @
     ''        QScrollBar::add-line:vertical\<newline>'' @
     ''        {\<newline>'' @
     ''            height: 0px;\<newline>'' @
     ''            subcontrol-position: bottom;\<newline>'' @
     ''            subcontrol-origin: margin;\<newline>'' @
     ''        }\<newline>'' @
     ''        QScrollBar::sub-line:vertical\<newline>'' @
     ''        {\<newline>'' @
     ''            height: 0px;\<newline>'' @
     ''            subcontrol-position: top;\<newline>'' @
     ''            subcontrol-origin: margin;\<newline>'' @
     ''        }\<newline>'' @
     ''        QScrollBar::up-arrow:vertical, QScrollBar::down-arrow:vertical \<newline>'' @
     ''        {\<newline>'' @
     ''            width: 5px;\<newline>'' @
     ''            height: 5px;\<newline>'' @
     ''            background: '' @
     color1 th @
     '';\<newline>'' @
     ''        }\<newline>'' @
     ''        QScrollBar::add-page:vertical, QScrollBar::sub-page:vertical\<newline>'' @
     ''        {\<newline>'' @
     ''            background: none;\<newline>'' @
     ''        }\<newline>'' @
     ''        QScrollBar:horizontal {\<newline>'' @
     ''            height: 10px;\<newline>'' @
     ''            background: '' @
     color7 th @
     '';\<newline>'' @
     ''        }\<newline>'' @
     ''        QScrollBar::handle:horizontal {\<newline>'' @
     ''            background: '' @
     color4 th @
     '';\<newline>'' @
     ''            min-width: 3px;\<newline>'' @
     ''            border-radius: 3px;\<newline>'' @
     ''            margin: 2px 2px 2px 2px;\<newline>'' @
     ''        }\<newline>'' @
     ''        QScrollBar::add-line:horizontal\<newline>'' @
     ''        {\<newline>'' @
     ''            width: 0px;\<newline>'' @
     ''            subcontrol-position: bottom;\<newline>'' @
     ''            subcontrol-origin: margin;\<newline>'' @
     ''        }\<newline>'' @
     ''        QScrollBar::sub-line:horizontal\<newline>'' @
     ''        {\<newline>'' @
     ''            width: 0px;\<newline>'' @
     ''            subcontrol-position: top;\<newline>'' @
     ''            subcontrol-origin: margin;\<newline>'' @
     ''        }\<newline>'' @
     ''        QScrollBar::up-arrow:horizontal, QScrollBar::down-arrow:horizontal \<newline>'' @
     ''        {\<newline>'' @
     ''            width: 5px;\<newline>'' @
     ''            height: 5px;\<newline>'' @
     ''            background: '' @
     color1 th @
     '';\<newline>'' @
     ''        }\<newline>'' @
     ''        QScrollBar::add-page:horizontal, QScrollBar::sub-page:horizontal\<newline>'' @
     ''        {\<newline>'' @
     ''            background: none;\<newline>'' @
     ''        }\<newline>'' @
     ''        ::-webkit-scrollbar\<newline>'' @
     ''        {\<newline>'' @
     ''            height: 10px;\<newline>'' @
     ''            width: 10px;\<newline>'' @
     ''        }\<newline>'' @
     ''        /* background */\<newline>'' @
     ''        ::-webkit-scrollbar-track\<newline>'' @
     ''        {\<newline>'' @
     ''            background:'' @
     color7 th @
     '';\<newline>'' @
     ''        }\<newline>'' @
     ''        /* handle */\<newline>'' @
     ''        ::-webkit-scrollbar-thumb\<newline>'' @
     ''        {\<newline>'' @
     ''            min-height: 3px;\<newline>'' @
     ''            min-width: 3px;\<newline>'' @
     ''            border-radius: 3px;\<newline>'' @
     ''            border: 2px solid '' @
     color7 th @
     '';\<newline>'' @
     ''            background:'' @
     color4 th @
     '';\<newline>'' @
     ''        }\<newline>'' @
     ''        ''\<close>

text \<open>The value of \<^verbatim>\<open>nm_css_custom_colors\<close> at import (line 1072).\<close>

definition init_nm_css_custom_colors :: "theme \<Rightarrow> string" where
  "init_nm_css_custom_colors th =
     nm_make_css_custom_colors_string (init_nm_color_td th) (init_nm_color_bl th)"

definition nm_css_button_idle :: "theme \<Rightarrow> string" where
  \<open>nm_css_button_idle th =
     ''\<newline>'' @
     ''    background:'' @
     init_nm_color_bl th @
     '';\<newline>'' @
     ''    color:'' @
     nm_color_tl @
     '';\<newline>'' @
     ''    margin-top:5px;\<newline>'' @
     ''    position:relative;\<newline>'' @
     ''    top:0;\<newline>'' @
     ''    padding:3px 8px;\<newline>'' @
     ''    border:1px solid #3E474D;\<newline>'' @
     ''    border-top-color:#1c252b;\<newline>'' @
     ''    border-left-color:#2d363c;\<newline>''\<close>

definition nm_css_button_hover :: "theme \<Rightarrow> string" where
  \<open>nm_css_button_hover th =
     ''\<newline>'' @
     ''    background: '' @
     nm_color_ad th @
     '';\<newline>'' @
     ''    color:'' @
     nm_color_tl @
     '';\<newline>''\<close>

definition nm_css_button_active :: "theme \<Rightarrow> string" where
  \<open>nm_css_button_active th =
     ''\<newline>'' @
     ''    background: '' @
     nm_color_al th @
     '';\<newline>'' @
     ''    color:'' @
     nm_color_tl @
     '';\<newline>''\<close>

definition nm_css_buttons :: "theme \<Rightarrow> string" where
  \<open>nm_css_buttons th =
     ''\<newline>'' @
     ''button\<newline>'' @
     ''{\<newline>'' @
     ''    '' @
     nm_css_button_idle th @
     ''\<newline>'' @
     ''    text-shadow:1px 1px #1f272b;\<newline>'' @
     ''    display:inline-block;\<newline>'' @
     ''    -webkit-box-shadow:1px 1px 1px rgba(0,0,0,0.1);\<newline>'' @
     ''    -webkit-border-radius:3px\<newline>'' @
     ''}\<newline>'' @
     ''button:hover\<newline>'' @
     ''{\<newline>'' @
     ''    '' @
     nm_css_button_hover th @
     ''\<newline>'' @
     ''}\<newline>'' @
     ''button:active\<newline>'' @
     ''{\<newline>'' @
     ''    '' @
     nm_css_button_active th @
     ''\<newline>'' @
     ''    -webkit-box-shadow:1px 1px 1px rgba(255,255,255,0.1);\<newline>'' @
     ''}\<newline>''\<close>

definition nm_css_color_replacer :: "string" where
  \<open>nm_css_color_replacer =
     ''\<newline>'' @
     ''font[color="#007700"],span[style="color:#070"]\<newline>'' @
     ''{\<newline>'' @
     ''    color:#30dc16!important\<newline>'' @
     ''}\<newline>'' @
     ''font[color="#000099"],span[style="color:#00F"]\<newline>'' @
     ''{\<newline>'' @
     ''    color:#00BBFF!important\<newline>'' @
     ''}\<newline>'' @
     ''font[color="#C35617"],span[style="color:#c00"]\<newline>'' @
     ''{\<newline>'' @
     ''    color:#E79292!important\<newline>'' @
     ''}\<newline>'' @
     ''font[color="#00a"]\<newline>'' @
     ''{\<newline>'' @
     ''    color:#00BBFF\<newline>'' @
     ''}\<newline>''\<close>

definition nm_css_bottom :: "theme \<Rightarrow> string" where
  \<open>nm_css_bottom th =
     nm_css_buttons th @
     nm_css_color_replacer @
     ''\<newline>'' @
     ''body, #outer\<newline>'' @
     ''{\<newline>'' @
     ''    background: '' @
     init_nm_color_bl th @
     '';\<newline>'' @
     ''    color: '' @
     nm_color_tl @
     '';\<newline>'' @
     ''    border-top-color:'' @
     nm_color_al th @
     '';\<newline>'' @
     ''}\<newline>'' @
     ''.stattxt\<newline>'' @
     ''{\<newline>'' @
     ''    color:'' @
     init_nm_color_td th @
     '';\<newline>'' @
     ''}\<newline>'' @
     ''/* Make the color above "Again" "Hard" "Easy" and so on buttons readable */\<newline>'' @
     ''.nobold\<newline>'' @
     ''{\<newline>'' @
     ''    color:'' @
     nm_color_tl @
     '';\<newline>'' @
     ''}\<newline>''\<close>

definition nm_css_top :: "theme \<Rightarrow> string" where
  \<open>nm_css_top th =
     ''\<newline>'' @
     ''html, #header\<newline>'' @
     ''{\<newline>'' @
     ''    '' @
     init_nm_css_custom_colors th @
     '';\<newline>'' @
     ''}\<newline>'' @
     ''body, #header\<newline>'' @
     ''{\<newline>'' @
     ''    '' @
     init_nm_css_custom_colors th @
     '';\<newline>'' @
     ''    border-bottom-color:'' @
     nm_color_al th @
     '';\<newline>'' @
     ''}\<newline>'' @
     ''.hitem\<newline>'' @
     ''{\<newline>'' @
     ''    color:'' @
     nm_color_tl @
     '';\<newline>'' @
     ''}\<newline>''\<close>

definition nm_css_ilatex :: "string" where
  \<open>nm_css_ilatex =
     ''.latex\<newline>'' @
     ''{\<newline>'' @
     ''    filter:invert(1);\<newline>'' @
     ''    -webkit-filter:invert(1)\<newline>'' @
     ''}\<newline>''\<close>

definition nm_css_iimage :: "string" where
  \<open>nm_css_iimage =
     ''img\<newline>'' @
     ''{\<newline>'' @
     ''    filter:invert(1);\<newline>'' @
     ''    -webkit-filter:invert(1)\<newline>'' @
     ''}\<newline>''\<close>

definition nm_css_body :: "theme \<Rightarrow> string" where
  \<open>nm_css_body th =
     ''\<newline>'' @
     ''.card input\<newline>'' @
     ''{\<newline>'' @
     ''    background-color:red!important;\<newline>'' @
     ''    border-color:blue!important;\<newline>'' @
     ''    color:#eee!important\<newline>'' @
     ''}\<newline>'' @
     ''.card label\<newline>'' @
     ''{\<newline>'' @
     ''    margin-top: 5px;\<newline>'' @
     ''    color: '' @
     color7 th @
     '';\<newline>'' @
     ''}\<newline>'' @
     ''.typeGood\<newline>'' @
     ''{\<newline>'' @
     ''    color:black;\<newline>'' @
     ''    background:#30dc16\<newline>'' @
     ''}\<newline>'' @
     ''.typeBad\<newline>'' @
     ''{\<newline>'' @
     ''    color:black;\<newline>'' @
     ''    background:#c43c35\<newline>'' @
     ''}\<newline>'' @
     ''.typeMissed\<newline>'' @
     ''{\<newline>'' @
     ''    color:black;\<newline>'' @
     ''    background:#ccc\<newline>'' @
     ''}\<newline>'' @
     ''#answer\<newline>'' @
     ''{\<newline>'' @
     ''    height:0;\<newline>'' @
     ''}\<newline>'' @
     ''img#star\<newline>'' @
     ''{\<newline>'' @
     ''    -webkit-filter:invert(0%)!important\<newline>'' @
     ''}\<newline>'' @
     ''.cloze\<newline>'' @
     ''{\<newline>'' @
     ''    color:#5566ee!important\<newline>'' @
     ''}\<newline>'' @
     ''a\<newline>'' @
     ''{\<newline>'' @
     ''    color:#0099CC\<newline>'' @
     ''}\<newline>''\<close>

definition nm_css_decks :: "theme \<Rightarrow> string" where
  \<open>nm_css_decks th =
     nm_css_buttons th @
     nm_css_color_replacer @
     ''\<newline>'' @
     ''a\<newline>'' @
     ''{\<newline>'' @
     ''    color:'' @
     nm_color_tl @
     '';\<newline>'' @
     ''}\<newline>'' @
     ''.current\<newline>'' @
     ''{\<newline>'' @
     ''    background-color:#e7e7e7;\<newline>'' @
     ''}\<newline>'' @
     ''a.deck, .collapse\<newline>'' @
     ''{\<newline>'' @
     ''    color: #000;\<newline>'' @
     ''}\<newline>'' @
     ''tr.deck td\<newline>'' @
     ''{\<newline>'' @
     ''    height:35px;\<newline>'' @
     ''}\<newline>'' @
     ''tr.deck button img\<newline>'' @
     ''{\<newline>'' @
     ''    -webkit-filter:invert(20%)\<newline>'' @
     ''}\<newline>'' @
     ''tr.deck font[color="#007700"]\<newline>'' @
     ''{\<newline>'' @
     ''    color:#30dc16\<newline>'' @
     ''}\<newline>'' @
     ''tr.deck font[color="#000099"]\<newline>'' @
     ''{\<newline>'' @
     ''    color:#00BBFF\<newline>'' @
     ''}\<newline>'' @
     ''.filtered\<newline>'' @
     ''{\<newline>'' @
     ''    color:#00AAEE!important\<newline>'' @
     ''}\<newline>''\<close>

definition nm_css_other_bottoms :: "theme \<Rightarrow> string" where
  \<open>nm_css_other_bottoms th =
     nm_css_buttons th @
     ''\<newline>'' @
     ''#header\<newline>'' @
     ''{\<newline>'' @
     ''    background: '' @
     init_nm_color_bl th @
     '';\<newline>'' @
     ''    color:'' @
     init_nm_color_td th @
     ''!important;\<newline>'' @
     ''    border-top-color:'' @
     nm_color_al th @
     '';\<newline>'' @
     ''    height:40px\<newline>'' @
     ''}\<newline>''\<close>

definition nm_css_overview :: "theme \<Rightarrow> string" where
  \<open>nm_css_overview th =
     nm_css_buttons th @
     ''\<newline>'' @
     ''    .descfont\<newline>'' @
     ''    {\<newline>'' @
     ''    }\<newline>'' @
     ''    ''\<close>

definition nm_css_menu :: "theme \<Rightarrow> string" where
  \<open>nm_css_menu th =
     ''\<newline>'' @
     ''QMenuBar,QMenu\<newline>'' @
     ''{\<newline>'' @
     ''    background-color:'' @
     init_nm_color_bl th @
     ''!important;\<newline>'' @
     ''    color:'' @
     init_nm_color_td th @
     ''!important;\<newline>'' @
     ''}\<newline>'' @
     ''QMenuBar::item\<newline>'' @
     ''{\<newline>'' @
     ''    background-color:transparent\<newline>'' @
     ''}\<newline>'' @
     ''QMenuBar::item:selected\<newline>'' @
     ''{\<newline>'' @
     ''    background-color:'' @
     nm_color_al th @
     ''!important;\<newline>'' @
     ''    color:'' @
     nm_color_tl @
     ''!important;\<newline>'' @
     ''}\<newline>'' @
     ''QMenu\<newline>'' @
     ''{\<newline>'' @
     ''    border:1px solid '' @
     nm_color_al th @
     '';\<newline>'' @
     ''}\<newline>'' @
     ''QMenu::item::selected\<newline>'' @
     ''{\<newline>'' @
     ''    background-color:'' @
     nm_color_al th @
     '';\<newline>'' @
     ''    color:'' @
     nm_color_tl @
     '';\<newline>'' @
     ''}\<newline>'' @
     ''QMenu::item\<newline>'' @
     ''{\<newline>'' @
     ''    padding:3px 25px 3px 25px;\<newline>'' @
     ''    border:1px solid transparent\<newline>'' @
     ''}\<newline>''\<close>

section \<open>Operations of Night Mode 1.x\<close>

definition showWarning :: "warning \<Rightarrow> nm_state \<Rightarrow> nm_state" where
  "showWarning w s = s\<lparr>host_calls := host_calls s @ [ShowWarning w]\<rparr>"

definition host_call :: "host_call \<Rightarrow> nm_state \<Rightarrow> nm_state" where
  "host_call hc s = s\<lparr>host_calls := host_calls s @ [hc]\<rparr>"

text \<open>
  \<^verbatim>\<open>action.setChecked(b)\<close> on a menu variable: an \<^verbatim>\<open>AttributeError\<close> when the
  variable still holds \<^verbatim>\<open>None\<close>.
\<close>

definition setChecked :: "bool \<Rightarrow> bool option \<Rightarrow> exn + bool option" where
  "setChecked b action = (case action of None \<Rightarrow> Inl AttributeError | Some _ \<Rightarrow> Inr (Some b))"

text \<open>Sequencing of statements that may raise: the first exception ends the run.\<close>

definition and_then ::
  "(exn + unit) \<times> nm_state \<Rightarrow> (nm_state \<Rightarrow> (exn + unit) \<times> nm_state) \<Rightarrow> (exn + unit) \<times> nm_state" where
  "and_then r f = (case fst r of Inl e \<Rightarrow> r | Inr u \<Rightarrow> f (snd r))"

definition nm_refresh_css_custom_colors_string :: "nm_state \<Rightarrow> nm_state" where
  "nm_refresh_css_custom_colors_string s =
     s\<lparr>nm_css_custom_colors := nm_make_css_custom_colors_string (nm_color_td s) (nm_color_bl s)\<rparr>"

text \<open>
  \<^verbatim>\<open>nm_append_to_styles\<close>, lines 558-599.  Its keyword arguments are taken in the
  order of the signature (\<open>top'\<close> is the argument \<^verbatim>\<open>top\<close>); a caller that leaves one
  out passes \<open>[]\<close>.
\<close>

definition nm_append_to_styles ::
  "nm_consts \<Rightarrow> string \<Rightarrow> string \<Rightarrow> string \<Rightarrow> string \<Rightarrow> string \<Rightarrow> string \<Rightarrow> string \<Rightarrow> string
     \<Rightarrow> nm_state \<Rightarrow> nm_state" where
  "nm_append_to_styles c bottom body top' decks other_bottoms overview menu waiting_screen s =
    (let body1 = (if nm_invert_image s then body @ nm_css_iimage else body);
         body2 = (if nm_invert_latex s then body1 @ nm_css_ilatex else body1);
         s1 = s\<lparr>mw_styleSheet := nm_default_css_menu c @ menu,
                mw_toolbar_css := nm_default_css_top c @ top',
                mw_reviewer_bottomCSS := nm_default_css_bottom c @ bottom\<rparr>;
         s2 = (if \<not> appVersion_2_1 c
               then s1\<lparr>mw_reviewer_css :=
                         nm_default_css_body c @ body2 @ nm_css_scrollbar (theme c)\<rparr>
               else s1\<lparr>mw_reviewer_revHtml :=
                         nm_default_reviewer_html c @ ''<style>'' @ body2 @ ''</style>''\<rparr>);
         s3 = s2\<lparr>mw_deckBrowser_css := nm_default_css_decks c @ decks,
                 mw_deckBrowser_bottom_css := nm_default_css_decks_bottom c @ other_bottoms,
                 mw_overview_css := nm_default_css_overview c @ overview,
                 mw_overview_bottom_css := nm_default_css_overview_bottom c @ other_bottoms,
                 mw_sharedCSS := nm_default_css_waiting_screen c @ waiting_screen\<rparr>;
         s4 = (if mw_state s3 = ''review'' then host_call Reviewer_initWeb s3 else s3);
         s5 = (if mw_state s4 = ''deckBrowser'' then host_call DeckBrowser_refresh s4 else s4);
         s6 = (if mw_state s5 = ''overview'' then host_call Overview_refresh s5 else s5)
     in host_call Toolbar_draw s6)"

text \<open>
  \<^verbatim>\<open>nm_on\<close>, lines 602-631.  The body of the \<^verbatim>\<open>try\<close> can raise at
  \<^verbatim>\<open>nm_menu_switch.setChecked(True)\<close>; what was assigned before stays assigned, the
  handler shows the warning and the function returns \<^verbatim>\<open>False\<close>.
\<close>

definition nm_on :: "nm_consts \<Rightarrow> nm_state \<Rightarrow> bool \<times> nm_state" where
  "nm_on c s =
    (if \<not> nm_profile_loaded s then (False, showWarning NM_ERROR_NO_PROFILE s)
     else
       let s1 = s\<lparr>nm_state_on := True\<rparr>;
           s2 = s1\<lparr>COLOUR_MARKED := ''#D9B2E9'', COLOUR_SUSPENDED := ''#FFFFB2''\<rparr>;
           s3 = nm_append_to_styles c
                  (nm_css_bottom (theme c))
                  (nm_css_body (theme c) @ nm_card_color_css s2 @ nm_css_custom_color_map s2)
                  (nm_css_top (theme c))
                  (nm_css_decks (theme c) @ nm_body_color_css s2)
                  (nm_css_other_bottoms (theme c))
                  (nm_css_overview (theme c) @ nm_body_color_css s2)
                  (nm_css_menu (theme c))
                  (nm_css_buttons (theme c) @ nm_body_color_css s2)
                  s2
       in (case setChecked True (nm_menu_switch s3) of
             Inl e \<Rightarrow> (False, showWarning (NM_ERROR_SWITCH e) s3)
           | Inr a \<Rightarrow> (True, s3\<lparr>nm_menu_switch := a\<rparr>)))"

text \<open>\<^verbatim>\<open>nm_off\<close>, lines 634-653.\<close>

definition nm_off :: "nm_consts \<Rightarrow> nm_state \<Rightarrow> bool \<times> nm_state" where
  "nm_off c s =
    (if \<not> nm_profile_loaded s then (False, showWarning NM_ERROR_NO_PROFILE s)
     else
       let s1 = s\<lparr>nm_state_on := False\<rparr>;
           s2 = s1\<lparr>COLOUR_MARKED := DEFLAULT_COLOUR_MARKED c,
                   COLOUR_SUSPENDED := DEFLAULT_COLOUR_SUSPENDED c\<rparr>;
           s3 = nm_append_to_styles c [] [] [] [] [] [] [] [] s2
       in (case setChecked False (nm_menu_switch s3) of
             Inl e \<Rightarrow> (False, showWarning (NM_ERROR_SWITCH e) s3)
           | Inr a \<Rightarrow> (True, s3\<lparr>nm_menu_switch := a\<rparr>)))"

text \<open>
  \<^verbatim>\<open>nm_make_latex_transparent\<close>, lines 169-195: the loop assigns index 1 of each
  command list of the host, and \<^verbatim>\<open>command[1] = ...\<close> raises \<^verbatim>\<open>IndexError\<close> on a
  list shorter than two.
\<close>

definition transparent_dvipng :: "string list" where
  "transparent_dvipng =
     [''dvipng'', ''-D'', ''200'', ''-T'', ''tight'', ''-bg'', ''Transparent'', ''-z'', ''9'',
      ''tmp.dvi'', ''-o'', ''tmp.png'']"

definition set_item_1 :: "'a list \<Rightarrow> 'a \<Rightarrow> exn + 'a list" where
  "set_item_1 command v = (if 1 < length command then Inr (command[1 := v]) else Inl IndexError)"

definition nm_make_latex_transparent :: "nm_consts \<Rightarrow> nm_state \<Rightarrow> (exn + unit) \<times> nm_state" where
  "nm_make_latex_transparent c s =
    (if appVersion_2_1 c then
       (case set_item_1 (pngCommands s) transparent_dvipng of
          Inl e \<Rightarrow> (Inl e, s)
        | Inr png \<Rightarrow>
            (case set_item_1 (svgCommands s) transparent_dvipng of
               Inl e \<Rightarrow> (Inl e, s\<lparr>pngCommands := png\<rparr>)
             | Inr svg \<Rightarrow> (Inr (), s\<lparr>pngCommands := png, svgCommands := svg\<rparr>)))
     else
       (case set_item_1 (latexCmds s) transparent_dvipng of
          Inl e \<Rightarrow> (Inl e, s)
        | Inr cmds \<Rightarrow> (Inr (), s\<lparr>latexCmds := cmds\<rparr>)))"

text \<open>\<^verbatim>\<open>nm_tlatex\<close>, lines 158-166.\<close>

definition nm_tlatex :: "nm_consts \<Rightarrow> nm_state \<Rightarrow> (exn + unit) \<times> nm_state" where
  "nm_tlatex c s =
    (let s1 = s\<lparr>nm_transparent_latex := \<not> nm_transparent_latex s\<rparr>
     in if nm_transparent_latex s1 then nm_make_latex_transparent c s1 else (Inr (), s1))"

section \<open>The profile: saving and loading\<close>

text \<open>
  The host's profile is a dictionary.  The model keeps the seven entries the add-on
  reads and writes, each with the type \<^verbatim>\<open>nm_save\<close> stores: field \<open>profile_k\<close> is
  \<open>None\<close> when the key \<^verbatim>\<open>'k'\<close> is absent and \<open>Some v\<close> when it holds \<open>v\<close>.
\<close>

record profile =
  profile_nm_state_on :: "bool option"
  profile_nm_enable_in_dialogs :: "bool option"
  profile_nm_invert_image :: "bool option"
  profile_nm_invert_latex :: "bool option"
  profile_nm_transparent_latex :: "bool option"
  profile_nm_color_bl :: "string option"
  profile_nm_color_td :: "string option"

text \<open>\<^verbatim>\<open>dict.get(key, default)\<close> on one entry.\<close>

definition profile_get :: "'a option \<Rightarrow> 'a \<Rightarrow> 'a" where
  "profile_get entry dflt = (case entry of None \<Rightarrow> dflt | Some v \<Rightarrow> v)"

text \<open>\<^verbatim>\<open>nm_save\<close>, lines 246-257.\<close>

definition nm_save :: "nm_state \<Rightarrow> profile \<Rightarrow> profile" where
  "nm_save s p =
     p\<lparr>profile_nm_state_on := Some (nm_state_on s),
       profile_nm_enable_in_dialogs := Some (nm_enable_in_dialogs s),
       profile_nm_invert_image := Some (nm_invert_image s),
       profile_nm_invert_latex := Some (nm_invert_latex s),
       profile_nm_transparent_latex := Some (nm_transparent_latex s),
       profile_nm_color_bl := Some (nm_color_bl s),
       profile_nm_color_td := Some (nm_color_td s)\<rparr>"

text \<open>
  \<^verbatim>\<open>nm_load\<close>, lines 260-295.  The result of \<^verbatim>\<open>nm_on()\<close> is dropped, as in the source.
  Each \<^verbatim>\<open>setChecked(True)\<close> below is a statement that may raise.
\<close>

definition check_menu_iimage :: "nm_state \<Rightarrow> (exn + unit) \<times> nm_state" where
  "check_menu_iimage s =
    (if nm_invert_image s then
       (case setChecked True (nm_menu_iimage s) of
          Inl e \<Rightarrow> (Inl e, s) | Inr a \<Rightarrow> (Inr (), s\<lparr>nm_menu_iimage := a\<rparr>))
     else (Inr (), s))"

definition check_menu_ilatex :: "nm_state \<Rightarrow> (exn + unit) \<times> nm_state" where
  "check_menu_ilatex s =
    (if nm_invert_latex s then
       (case setChecked True (nm_menu_ilatex s) of
          Inl e \<Rightarrow> (Inl e, s) | Inr a \<Rightarrow> (Inr (), s\<lparr>nm_menu_ilatex := a\<rparr>))
     else (Inr (), s))"

definition check_menu_endial :: "nm_state \<Rightarrow> (exn + unit) \<times> nm_state" where
  "check_menu_endial s =
    (if nm_enable_in_dialogs s then
       (case setChecked True (nm_menu_endial s) of
          Inl e \<Rightarrow> (Inl e, s) | Inr a \<Rightarrow> (Inr (), s\<lparr>nm_menu_endial := a\<rparr>))
     else (Inr (), s))"

definition check_menu_tlatex :: "nm_consts \<Rightarrow> nm_state \<Rightarrow> (exn + unit) \<times> nm_state" where
  "check_menu_tlatex c s =
    (if nm_transparent_latex s then
       (case setChecked True (nm_menu_tlatex s) of
          Inl e \<Rightarrow> (Inl e, s)
        | Inr a \<Rightarrow> nm_make_latex_transparent c (s\<lparr>nm_menu_tlatex := a\<rparr>))
     else (Inr (), s))"

definition nm_load :: "nm_consts \<Rightarrow> profile \<Rightarrow> nm_state \<Rightarrow> (exn + unit) \<times> nm_state" where
  "nm_load c p s =
    (let s1 = s\<lparr>nm_state_on := profile_get (profile_nm_state_on p) True,
                nm_invert_image := profile_get (profile_nm_invert_image p) False,
                nm_invert_latex := profile_get (profile_nm_invert_latex p) False,
                nm_color_bl := profile_get (profile_nm_color_bl p) (color1 (theme c)),
                nm_color_td := profile_get (profile_nm_color_td p) (color7 (theme c)),
                nm_enable_in_dialogs := profile_get (profile_nm_enable_in_dialogs p) True,
                nm_transparent_latex := profile_get (profile_nm_transparent_latex p) False\<rparr>;
         s2 = nm_refresh_css_custom_colors_string s1;
         s3 = s2\<lparr>nm_profile_loaded := True\<rparr>;
         s4 = (if nm_state_on s3 then snd (nm_on c s3) else s3)
     in and_then (and_then (and_then (check_menu_iimage s4) check_menu_ilatex)
                  check_menu_endial) (check_menu_tlatex c))"

section \<open>Import of the module\<close>

text \<open>
  Lines 108-127 capture the host's styles; the palette and the version test are given.
\<close>

definition capture_defaults :: "theme \<Rightarrow> bool \<Rightarrow> nm_state \<Rightarrow> nm_consts" where
  "capture_defaults th v21 host =
     \<lparr>theme = th,
      appVersion_2_1 = v21,
      nm_default_css_menu = mw_styleSheet host,
      nm_default_css_top = mw_toolbar_css host,
      nm_default_css_body = (if \<not> v21 then mw_reviewer_css host else []),
      nm_default_reviewer_html = (if \<not> v21 then [] else mw_reviewer_revHtml host),
      nm_default_css_bottom = mw_reviewer_bottomCSS host,
      nm_default_css_decks = mw_deckBrowser_css host,
      nm_default_css_decks_bottom = mw_deckBrowser_bottom_css host,
      nm_default_css_overview = mw_overview_css host,
      nm_default_css_overview_bottom = mw_overview_bottom_css host,
      nm_default_css_waiting_screen = mw_sharedCSS host,
      DEFLAULT_COLOUR_MARKED = COLOUR_MARKED host,
      DEFLAULT_COLOUR_SUSPENDED = COLOUR_SUSPENDED host\<rparr>"

text \<open>
  \<^verbatim>\<open>nm_setup_menu\<close>, lines 701-773, as far as the module's variables go: it creates
  the switch and the enable-in-dialogs actions, both checkable and unchecked.  The lines
  that would create the invert-images, invert-latex and transparent-latex actions are
  commented out in the source, so these three variables keep the value \<^verbatim>\<open>None\<close>.
\<close>

definition nm_setup_menu :: "nm_state \<Rightarrow> nm_state" where
  "nm_setup_menu s = s\<lparr>nm_menu_switch := Some False, nm_menu_endial := Some False\<rparr>"

text \<open>
  The module's variables after import: the assignments of lines 76-105 and 1072, then
  \<^verbatim>\<open>nm_onload\<close> (line 1367), which refreshes the colour string and builds the menu.
  The host's attributes are those of the given state.
\<close>

definition module_import :: "theme \<Rightarrow> nm_state \<Rightarrow> nm_state" where
  \<open>module_import th host =
     nm_setup_menu (nm_refresh_css_custom_colors_string
       (host\<lparr>nm_custom_color_map :=
                [(''#007700'', ''#30DC16''), (''#000099'', ''#00BBFF''),
                 (''#C35617'', ''#D46728''), (''#00a'', ''#00BBFF'')],
             nm_state_on := False,
             nm_enable_in_dialogs := True,
             nm_invert_image := False,
             nm_invert_latex := False,
             nm_transparent_latex := False,
             nm_profile_loaded := False,
             nm_menu_switch := None,
             nm_menu_iimage := None,
             nm_menu_ilatex := None,
             nm_menu_endial := None,
             nm_menu_tlatex := None,
             nm_color_bl := init_nm_color_bl th,
             nm_color_td := init_nm_color_td th,
             nm_css_custom_colors := init_nm_css_custom_colors th\<rparr>))\<close>

section \<open>Night Mode 2.x (\<^verbatim>\<open>night_mode/night_mode.py\<close>)\<close>

text \<open>
  \<^verbatim>\<open>StylingManager\<close>, lines 67-90.  The class \<^verbatim>\<open>Styler\<close> lives in a module that is
  not part of the sources at hand, so a styler is its name together with its two
  methods, taken as transformers of the host's state \<open>'h\<close>.  The configuration value
  \<^verbatim>\<open>disabled_stylers\<close> is the list of names the manager reads.
\<close>

record 'h styler =
  name :: string
  replace_attributes :: "'h \<Rightarrow> 'h"
  restore_attributes :: "'h \<Rightarrow> 'h"

record 'h styling_manager =
  stylers :: "'h styler list"
  disabled_stylers :: "string list"

definition active_stylers :: "'h styling_manager \<Rightarrow> 'h styler list" where
  "active_stylers sm = filter (\<lambda>styler. name styler \<notin> set (disabled_stylers sm)) (stylers sm)"

definition replace :: "'h styling_manager \<Rightarrow> 'h \<Rightarrow> 'h" where
  "replace sm h = foldl (\<lambda>h styler. replace_attributes styler h) h (active_stylers sm)"

definition restore :: "'h styling_manager \<Rightarrow> 'h \<Rightarrow> 'h" where
  "restore sm h = foldl (\<lambda>h styler. restore_attributes styler h) h (stylers sm)"

text \<open>
  \<^verbatim>\<open>NightMode.night_class_injection\<close>, lines 211-242.  The flag is
  \<^verbatim>\<open>self.config.state_on.value\<close>; the two scripts are the string literals of the
  source, and \<open>card'\<close> is the argument \<^verbatim>\<open>card\<close>.
\<close>

definition add_night_mode_class_js :: "string" where
  \<open>add_night_mode_class_js =
     ''\<newline>'' @
     ''            function add_night_mode_class(){\<newline>'' @
     ''                current_classes = document.body.className;\<newline>'' @
     ''                if(current_classes.indexOf("night_mode") == -1)\<newline>'' @
     ''                {\<newline>'' @
     ''                    document.body.className += " night_mode";\<newline>'' @
     ''                }\<newline>'' @
     ''            }\<newline>'' @
     ''            // explanation of setTimeout use:\<newline>'' @
     ''            // callback defined in _showQuestion of reviewer.js would otherwise overwrite\<newline>'' @
     ''            // the newly set body class; in order to prevent that the function execution\<newline>'' @
     ''            // is being placed on the end of execution queue (hence time = 0)\<newline>'' @
     ''            setTimeout(add_night_mode_class, 0)\<newline>'' @
     ''            ''\<close>

definition remove_night_mode_class_js :: "string" where
  \<open>remove_night_mode_class_js =
     ''\<newline>'' @
     ''            function remove_night_mode_class(){\<newline>'' @
     ''                current_classes = document.body.className;\<newline>'' @
     ''                if(current_classes.indexOf("night_mode") != -1)\<newline>'' @
     ''                {\<newline>'' @
     ''                    document.body.className = current_classes.replace("night_mode","");\<newline>'' @
     ''                }\<newline>'' @
     ''            }\<newline>'' @
     ''            setTimeout(remove_night_mode_class, 0)\<newline>'' @
     ''            ''\<close>
definition night_class_injection :: "bool \<Rightarrow> string \<Rightarrow> 'card \<Rightarrow> 'context \<Rightarrow> string" where
  "night_class_injection state_on html card' context =
    (let javascript = (if state_on then add_night_mode_class_js else remove_night_mode_class_js)
     in (''<script>'' @ javascript @ ''</script>'') @ html)"

section \<open>Observations and concrete inputs\<close>

text \<open>The seven settings that \<^verbatim>\<open>nm_save\<close> writes and \<^verbatim>\<open>nm_load\<close> reads.\<close>

definition settings :: "nm_state \<Rightarrow> bool \<times> bool \<times> bool \<times> bool \<times> bool \<times> string \<times> string" where
  "settings s = (nm_state_on s, nm_enable_in_dialogs s, nm_invert_image s, nm_invert_latex s,
     nm_transparent_latex s, nm_color_bl s, nm_color_td s)"

text \<open>
  A palette, the attributes of a host before the add-on is imported (the module's own
  variables are not assigned yet; the record gives them placeholder values that
  \<open>module_import\<close> overwrites) and a profile without any of the seven keys.
\<close>

definition example_theme :: theme where
  "example_theme = \<lparr>color1 = ''#1d2021'', color3 = ''#d79921'', color4 = ''#458588'',
     color7 = ''#a89984'', foreground = ''#ebdbb2''\<rparr>"

definition example_host :: nm_state where
  "example_host =
     \<lparr>nm_custom_color_map = [],
      nm_state_on = False,
      nm_enable_in_dialogs = False,
      nm_invert_image = False,
      nm_invert_latex = False,
      nm_transparent_latex = False,
      nm_profile_loaded = False,
      nm_menu_switch = None,
      nm_menu_iimage = None,
      nm_menu_ilatex = None,
      nm_menu_endial = None,
      nm_menu_tlatex = None,
      nm_color_bl = [],
      nm_color_td = [],
      nm_css_custom_colors = [],
      mw_styleSheet = [],
      mw_toolbar_css = ''#header{margin:0}'',
      mw_reviewer_css = ''hr{margin:12px}'',
      mw_reviewer_revHtml = ''<div id=qa></div>'',
      mw_reviewer_bottomCSS = ''body{margin:0}'',
      mw_deckBrowser_css = ''a.deck{color:#000}'',
      mw_deckBrowser_bottom_css = ''#header{height:40px}'',
      mw_overview_css = ''.descfont{padding:1em}'',
      mw_overview_bottom_css = ''#header{height:40px}'',
      mw_sharedCSS = ''body{margin:2em}'',
      mw_state = ''deckBrowser'',
      COLOUR_MARKED = ''#ccf'',
      COLOUR_SUSPENDED = ''#ffb'',
      pngCommands = [[''latex'', ''tmp.tex''], [''dvipng'', ''tmp.dvi'']],
      svgCommands = [[''latex'', ''tmp.tex''], [''dvisvgm'', ''tmp.dvi'']],
      latexCmds = [[''latex'', ''tmp.tex''], [''dvipng'', ''tmp.dvi'']],
      host_calls = []\<rparr>"

definition empty_profile :: profile where
  "empty_profile =
     \<lparr>profile_nm_state_on = None, profile_nm_enable_in_dialogs = None,
      profile_nm_invert_image = None, profile_nm_invert_latex = None,
      profile_nm_transparent_latex = None, profile_nm_color_bl = None,
      profile_nm_color_td = None\<rparr>"



text \<open>A profile that only says night mode is off, and the two host versions.\<close>

definition example_profile_off :: profile where
  "example_profile_off = empty_profile\<lparr>profile_nm_state_on := Some False\<rparr>"

definition example_consts_21 :: nm_consts where
  "example_consts_21 = capture_defaults example_theme True example_host"

definition example_consts_20 :: nm_consts where
  "example_consts_20 = capture_defaults example_theme False example_host"

text \<open>
  The module after import and after loading that profile: the profile is loaded, night
  mode is off, the host has its original styles.
\<close>

definition example_day_state :: "nm_consts \<Rightarrow> nm_state" where
  "example_day_state c = snd (nm_load c example_profile_off (module_import example_theme example_host))"

text \<open>A session in which the colour map holds a different table than the module's literal.\<close>

definition example_edited_state :: nm_state where
  "example_edited_state =
     (module_import example_theme example_host)\<lparr>nm_custom_color_map := [(''#ff0000'', ''#ff8080'')]\<rparr>"

text \<open>
  Two profiles: one saved with night mode and enable-in-dialogs switched off, one that
  holds a true \<^verbatim>\<open>nm_invert_image\<close>.  Then a first load of the empty profile after import,
  and a second load, of the first of these profiles, in the same session.
\<close>

definition example_profile_dialogs_off :: profile where
  "example_profile_dialogs_off =
     empty_profile\<lparr>profile_nm_state_on := Some False,
                   profile_nm_enable_in_dialogs := Some False\<rparr>"

definition example_profile_invert_image :: profile where
  "example_profile_invert_image = empty_profile\<lparr>profile_nm_invert_image := Some True\<rparr>"

definition example_first_load :: "(exn + unit) \<times> nm_state" where
  "example_first_load =
     nm_load example_consts_21 empty_profile (module_import example_theme example_host)"

definition example_second_load :: "(exn + unit) \<times> nm_state" where
  "example_second_load =
     nm_load example_consts_21 example_profile_dialogs_off (snd example_first_load)"

text \<open>
  A host with two attributes, a styler for each, and a manager whose configuration
  disables the second styler.
\<close>

definition example_toolbar_styler :: "(string \<times> string) styler" where
  "example_toolbar_styler =
     \<lparr>name = ''toolbar'',
      replace_attributes = (\<lambda>h. (''night'', snd h)),
      restore_attributes = (\<lambda>h. (''day'', snd h))\<rparr>"

definition example_reviewer_styler :: "(string \<times> string) styler" where
  "example_reviewer_styler =
     \<lparr>name = ''reviewer'',
      replace_attributes = (\<lambda>h. (fst h, ''night'')),
      restore_attributes = (\<lambda>h. (fst h, ''day''))\<rparr>"

definition example_styling_manager :: "(string \<times> string) styling_manager" where
  "example_styling_manager =
     \<lparr>stylers = [example_toolbar_styler, example_reviewer_styler],
      disabled_stylers = [''reviewer'']\<rparr>"

section \<open>Properties of Night Mode 1.x\<close>

subsection \<open>What each step leaves alone\<close>

lemma settings_host_call: "settings (host_call hc s) = settings s"
  by (simp add: settings_def host_call_def)

lemma settings_showWarning: "settings (showWarning w s) = settings s"
  by (simp add: settings_def showWarning_def)

lemma settings_nm_append_to_styles:
  "settings (nm_append_to_styles c a1 a2 a3 a4 a5 a6 a7 a8 s) = settings s"
  by (simp add: nm_append_to_styles_def Let_def settings_def host_call_def)

lemma settings_menu_switch_update: "settings (s\<lparr>nm_menu_switch := a\<rparr>) = settings s"
  by (simp add: settings_def)

lemma settings_nm_on:
  assumes "nm_state_on s"
  shows "settings (snd (nm_on c s)) = settings s"
proof (cases "nm_profile_loaded s")
  case False
  then show ?thesis by (simp add: nm_on_def settings_showWarning)
next
  case True
  let ?s2 = "s\<lparr>nm_state_on := True, COLOUR_MARKED := ''#D9B2E9'', COLOUR_SUSPENDED := ''#FFFFB2''\<rparr>"
  have s2: "settings ?s2 = settings s"
    using assms by (simp add: settings_def)
  show ?thesis
    using True s2
    by (simp add: nm_on_def Let_def setChecked_def settings_showWarning
        settings_nm_append_to_styles settings_menu_switch_update split: option.splits)
qed

lemma settings_nm_make_latex_transparent:
  "settings (snd (nm_make_latex_transparent c s)) = settings s"
  by (simp add: nm_make_latex_transparent_def settings_def split: sum.splits)

lemma settings_check_menu_iimage: "settings (snd (check_menu_iimage s)) = settings s"
  by (simp add: check_menu_iimage_def settings_def split: sum.splits)

lemma settings_check_menu_ilatex: "settings (snd (check_menu_ilatex s)) = settings s"
  by (simp add: check_menu_ilatex_def settings_def split: sum.splits)

lemma settings_check_menu_endial: "settings (snd (check_menu_endial s)) = settings s"
  by (simp add: check_menu_endial_def settings_def split: sum.splits)

lemma settings_check_menu_tlatex: "settings (snd (check_menu_tlatex c s)) = settings s"
  by (simp add: check_menu_tlatex_def settings_nm_make_latex_transparent split: sum.splits)
    (simp add: settings_def)

lemma settings_and_then:
  assumes "\<And>s. settings (snd (f s)) = settings s"
  shows "settings (snd (and_then r f)) = settings (snd r)"
  using assms by (simp add: and_then_def split: sum.splits)

lemma settings_nm_load:
  "settings (snd (nm_load c p s)) =
     (profile_get (profile_nm_state_on p) True,
      profile_get (profile_nm_enable_in_dialogs p) True,
      profile_get (profile_nm_invert_image p) False,
      profile_get (profile_nm_invert_latex p) False,
      profile_get (profile_nm_transparent_latex p) False,
      profile_get (profile_nm_color_bl p) (color1 (theme c)),
      profile_get (profile_nm_color_td p) (color7 (theme c)))"
proof -
  let ?s3 = "(nm_refresh_css_custom_colors_string
      (s\<lparr>nm_state_on := profile_get (profile_nm_state_on p) True,
         nm_invert_image := profile_get (profile_nm_invert_image p) False,
         nm_invert_latex := profile_get (profile_nm_invert_latex p) False,
         nm_color_bl := profile_get (profile_nm_color_bl p) (color1 (theme c)),
         nm_color_td := profile_get (profile_nm_color_td p) (color7 (theme c)),
         nm_enable_in_dialogs := profile_get (profile_nm_enable_in_dialogs p) True,
         nm_transparent_latex := profile_get (profile_nm_transparent_latex p) False\<rparr>))
      \<lparr>nm_profile_loaded := True\<rparr>"
  let ?s4 = "if nm_state_on ?s3 then snd (nm_on c ?s3) else ?s3"
  have load: "nm_load c p s =
      and_then (and_then (and_then (check_menu_iimage ?s4) check_menu_ilatex)
        check_menu_endial) (check_menu_tlatex c)"
    by (simp add: nm_load_def Let_def)
  have s4: "settings ?s4 = settings ?s3"
    by (simp add: settings_nm_on)
  have "settings (snd (nm_load c p s)) = settings ?s4"
    unfolding load
    by (simp add: settings_and_then settings_check_menu_iimage settings_check_menu_ilatex
        settings_check_menu_endial settings_check_menu_tlatex)
  also have "\<dots> = settings ?s3" by (rule s4)
  finally show ?thesis
    by (simp add: settings_def nm_refresh_css_custom_colors_string_def)
qed

subsection \<open>Saving and loading\<close>

text \<open>
  C1.  Saving the settings of a state \<open>s\<close> into any profile and loading that profile, in
  any state \<open>s0\<close> of the module (a later session, or the same one), gives back each of
  the seven settings of \<open>s\<close>.  This holds of the state \<^verbatim>\<open>nm_load\<close> leaves behind also
  when one of its later statements raises.
\<close>

theorem nm_save_then_nm_load_restores_settings:
  "let s' = snd (nm_load c (nm_save s p) s0) in
     nm_state_on s' = nm_state_on s \<and>
     nm_enable_in_dialogs s' = nm_enable_in_dialogs s \<and>
     nm_invert_image s' = nm_invert_image s \<and>
     nm_invert_latex s' = nm_invert_latex s \<and>
     nm_transparent_latex s' = nm_transparent_latex s \<and>
     nm_color_bl s' = nm_color_bl s \<and>
     nm_color_td s' = nm_color_td s"
  using settings_nm_load [of c "nm_save s p" s0]
  by (simp add: settings_def nm_save_def profile_get_def)

text \<open>
  C3.  After \<^verbatim>\<open>nm_load\<close> each setting is the profile's entry when the key is present and
  its default when the key is absent: \<open>True\<close> for the night mode state and for
  enable-in-dialogs, \<open>False\<close> for the two inversions and for transparent latex,
  \<^verbatim>\<open>theme.color1\<close> and \<^verbatim>\<open>theme.color7\<close> for the two colours.
\<close>

theorem nm_load_defaults:
  "let s' = snd (nm_load c p s) in
     nm_state_on s' = (case profile_nm_state_on p of None \<Rightarrow> True | Some v \<Rightarrow> v) \<and>
     nm_invert_image s' = (case profile_nm_invert_image p of None \<Rightarrow> False | Some v \<Rightarrow> v) \<and>
     nm_invert_latex s' = (case profile_nm_invert_latex p of None \<Rightarrow> False | Some v \<Rightarrow> v) \<and>
     nm_color_bl s' = (case profile_nm_color_bl p of None \<Rightarrow> color1 (theme c) | Some v \<Rightarrow> v) \<and>
     nm_color_td s' = (case profile_nm_color_td p of None \<Rightarrow> color7 (theme c) | Some v \<Rightarrow> v) \<and>
     nm_enable_in_dialogs s' =
       (case profile_nm_enable_in_dialogs p of None \<Rightarrow> True | Some v \<Rightarrow> v) \<and>
     nm_transparent_latex s' =
       (case profile_nm_transparent_latex p of None \<Rightarrow> False | Some v \<Rightarrow> v)"
  using settings_nm_load [of c p s]
  by (simp add: settings_def profile_get_def)

subsection \<open>Switching before the profile is loaded\<close>

text \<open>
  C8.  While \<^verbatim>\<open>nm_profile_loaded\<close> is false, \<^verbatim>\<open>nm_on\<close> and \<^verbatim>\<open>nm_off\<close> return
  \<^verbatim>\<open>False\<close> and the only effect is the warning: every variable of the module and every
  attribute of the host keeps its value.
\<close>

theorem nm_on_nm_off_without_profile:
  "\<not> nm_profile_loaded s \<Longrightarrow>
     nm_on c s = (False, s\<lparr>host_calls := host_calls s @ [ShowWarning NM_ERROR_NO_PROFILE]\<rparr>) \<and>
     nm_off c s = (False, s\<lparr>host_calls := host_calls s @ [ShowWarning NM_ERROR_NO_PROFILE]\<rparr>)"
  by (simp add: nm_on_def nm_off_def showWarning_def)

theorem nm_on_nm_off_without_profile_witness:
  "\<not> nm_profile_loaded (module_import example_theme example_host) \<and>
   fst (nm_on (capture_defaults example_theme True example_host)
          (module_import example_theme example_host)) = False \<and>
   fst (nm_off (capture_defaults example_theme True example_host)
          (module_import example_theme example_host)) = False \<and>
   host_calls (snd (nm_on (capture_defaults example_theme True example_host)
          (module_import example_theme example_host))) = [ShowWarning NM_ERROR_NO_PROFILE] \<and>
   mw_toolbar_css (snd (nm_on (capture_defaults example_theme True example_host)
          (module_import example_theme example_host))) = ''#header{margin:0}''"
  using nm_on_nm_off_without_profile
    [of "module_import example_theme example_host"
        "capture_defaults example_theme True example_host"]
  by (simp add: module_import_def nm_setup_menu_def nm_refresh_css_custom_colors_string_def
      example_host_def)

subsection \<open>Switching night mode on and off\<close>


lemma nm_append_to_styles_keeps:
  "COLOUR_MARKED (nm_append_to_styles c bo b t d ob ov m w s) = COLOUR_MARKED s"
  "COLOUR_SUSPENDED (nm_append_to_styles c bo b t d ob ov m w s) = COLOUR_SUSPENDED s"
  "nm_menu_switch (nm_append_to_styles c bo b t d ob ov m w s) = nm_menu_switch s"
  "nm_profile_loaded (nm_append_to_styles c bo b t d ob ov m w s) = nm_profile_loaded s"
  "nm_invert_image (nm_append_to_styles c bo b t d ob ov m w s) = nm_invert_image s"
  "nm_invert_latex (nm_append_to_styles c bo b t d ob ov m w s) = nm_invert_latex s"
  by (simp_all add: nm_append_to_styles_def Let_def host_call_def)



lemma nm_on_keeps:
  "nm_profile_loaded (snd (nm_on c s)) = nm_profile_loaded s"
  "nm_invert_image (snd (nm_on c s)) = nm_invert_image s"
  "nm_invert_latex (snd (nm_on c s)) = nm_invert_latex s"
  by (simp_all add: nm_on_def Let_def showWarning_def setChecked_def
      nm_append_to_styles_keeps split: option.splits)




lemma example_day_state_eq:
  "example_day_state c =
     example_host\<lparr>nm_custom_color_map :=
                [(''#007700'', ''#30DC16''), (''#000099'', ''#00BBFF''),
                 (''#C35617'', ''#D46728''), (''#00a'', ''#00BBFF'')],
       nm_enable_in_dialogs := True,
       nm_profile_loaded := True,
       nm_menu_switch := Some False,
       nm_menu_endial := Some True,
       nm_color_bl := color1 (theme c),
       nm_color_td := color7 (theme c),
       nm_css_custom_colors :=
         nm_make_css_custom_colors_string (color7 (theme c)) (color1 (theme c))\<rparr>"
  by (simp add: example_day_state_def nm_load_def Let_def module_import_def nm_setup_menu_def
      nm_refresh_css_custom_colors_string_def example_profile_off_def empty_profile_def
      profile_get_def and_then_def check_menu_iimage_def check_menu_ilatex_def
      check_menu_endial_def check_menu_tlatex_def setChecked_def example_host_def)





subsection \<open>The reviewer body and the colour map\<close>





lemma nm_append_to_styles_module_vars:
  "nm_custom_color_map (nm_append_to_styles c bo b t d ob ov m w s) = nm_custom_color_map s"
  "nm_state_on (nm_append_to_styles c bo b t d ob ov m w s) = nm_state_on s"
  "nm_enable_in_dialogs (nm_append_to_styles c bo b t d ob ov m w s) = nm_enable_in_dialogs s"
  "nm_transparent_latex (nm_append_to_styles c bo b t d ob ov m w s) = nm_transparent_latex s"
  "nm_menu_iimage (nm_append_to_styles c bo b t d ob ov m w s) = nm_menu_iimage s"
  "nm_menu_ilatex (nm_append_to_styles c bo b t d ob ov m w s) = nm_menu_ilatex s"
  "nm_menu_endial (nm_append_to_styles c bo b t d ob ov m w s) = nm_menu_endial s"
  "nm_menu_tlatex (nm_append_to_styles c bo b t d ob ov m w s) = nm_menu_tlatex s"
  "pngCommands (nm_append_to_styles c bo b t d ob ov m w s) = pngCommands s"
  "svgCommands (nm_append_to_styles c bo b t d ob ov m w s) = svgCommands s"
  "latexCmds (nm_append_to_styles c bo b t d ob ov m w s) = latexCmds s"
  by (simp_all add: nm_append_to_styles_def Let_def host_call_def)

lemma nm_custom_color_map_and_then:
  assumes "\<And>s. nm_custom_color_map (snd (f s)) = nm_custom_color_map s"
  shows "nm_custom_color_map (snd (and_then r f)) = nm_custom_color_map (snd r)"
  using assms by (simp add: and_then_def split: sum.splits)

lemma nm_custom_color_map_nm_on:
  "nm_custom_color_map (snd (nm_on c s)) = nm_custom_color_map s"
  by (simp add: nm_on_def Let_def showWarning_def setChecked_def
      nm_append_to_styles_module_vars split: option.splits)

lemma nm_custom_color_map_steps:
  "nm_custom_color_map (snd (check_menu_iimage s)) = nm_custom_color_map s"
  "nm_custom_color_map (snd (check_menu_ilatex s)) = nm_custom_color_map s"
  "nm_custom_color_map (snd (check_menu_endial s)) = nm_custom_color_map s"
  "nm_custom_color_map (snd (check_menu_tlatex c s)) = nm_custom_color_map s"
  by (simp_all add: check_menu_iimage_def check_menu_ilatex_def check_menu_endial_def
      check_menu_tlatex_def nm_make_latex_transparent_def setChecked_def
      split: sum.splits option.splits)

lemma nm_custom_color_map_nm_load:
  "nm_custom_color_map (snd (nm_load c p s0)) = nm_custom_color_map s0"
  by (simp add: nm_load_def Let_def nm_custom_color_map_and_then nm_custom_color_map_steps
      nm_custom_color_map_nm_on nm_refresh_css_custom_colors_string_def)

text \<open>
  C4, as amended.  The colour map is not among the persisted preferences: what
  \<^verbatim>\<open>nm_save\<close> writes does not depend on it, and \<^verbatim>\<open>nm_load\<close> leaves the map of the running
  module as it is, whatever the profile holds.
\<close>

theorem nm_save_nm_load_ignore_color_map:
  "nm_save (s\<lparr>nm_custom_color_map := m\<rparr>) p = nm_save s p \<and>
   nm_custom_color_map (snd (nm_load c p s0)) = nm_custom_color_map s0"
  by (simp add: nm_save_def nm_custom_color_map_nm_load)

text \<open>
  C4 as stated fails: a table saved by one session is not the table a later session has
  after loading the profile.
\<close>

theorem nm_custom_color_map_not_persisted_counterexample:
  "nm_custom_color_map
     (snd (nm_load example_consts_21 (nm_save example_edited_state empty_profile)
        (module_import example_theme example_host))) \<noteq>
   nm_custom_color_map example_edited_state"
  by (simp add: nm_custom_color_map_nm_load example_edited_state_def module_import_def
      nm_setup_menu_def nm_refresh_css_custom_colors_string_def)

subsection \<open>Menu actions after loading\<close>

lemma nm_on_menu:
  assumes "nm_profile_loaded s"
  shows "fst (nm_on c s) = (nm_menu_switch s \<noteq> None)"
    and "nm_menu_switch (snd (nm_on c s)) = (case nm_menu_switch s of None \<Rightarrow> None | Some b \<Rightarrow> Some True)"
    and "nm_menu_endial (snd (nm_on c s)) = nm_menu_endial s"
    and "nm_menu_iimage (snd (nm_on c s)) = nm_menu_iimage s"
    and "nm_menu_ilatex (snd (nm_on c s)) = nm_menu_ilatex s"
    and "nm_menu_tlatex (snd (nm_on c s)) = nm_menu_tlatex s"
    and "nm_state_on (snd (nm_on c s))"
    and "nm_enable_in_dialogs (snd (nm_on c s)) = nm_enable_in_dialogs s"
    and "nm_transparent_latex (snd (nm_on c s)) = nm_transparent_latex s"
  using assms
  by (simp_all add: nm_on_def Let_def showWarning_def setChecked_def
      nm_append_to_styles_module_vars nm_append_to_styles_keeps split: option.splits)

lemma example_first_load_facts:
  "fst example_first_load = Inr ()"
  "nm_menu_switch (snd example_first_load) = Some True"
  "nm_menu_endial (snd example_first_load) = Some True"
  "nm_menu_iimage (snd example_first_load) = None"
  "nm_menu_ilatex (snd example_first_load) = None"
  "nm_menu_tlatex (snd example_first_load) = None"
  "nm_state_on (snd example_first_load)"
  "nm_enable_in_dialogs (snd example_first_load)"
  by (simp_all add: example_first_load_def nm_load_def Let_def module_import_def
      nm_setup_menu_def nm_refresh_css_custom_colors_string_def empty_profile_def
      profile_get_def and_then_def check_menu_iimage_def check_menu_ilatex_def
      check_menu_endial_def check_menu_tlatex_def setChecked_def nm_on_menu nm_on_keeps)

text \<open>
  C5 does not hold of the code.  After import the empty profile is loaded (both actions
  become checked), then a profile with night mode and enable-in-dialogs off: \<^verbatim>\<open>nm_load\<close>
  completes, both settings are false, and both actions are still checked, since
  \<^verbatim>\<open>nm_load\<close> only ever checks an action.  And a profile with a true \<^verbatim>\<open>nm_invert_image\<close>
  makes \<^verbatim>\<open>nm_load\<close> raise \<^verbatim>\<open>AttributeError\<close>: the action it would check was never created.
\<close>

theorem nm_load_second_profile_stale_checks:
  "fst example_first_load = Inr () \<and>
   nm_menu_endial (snd example_first_load) = Some True \<and>
   nm_menu_switch (snd example_first_load) = Some True \<and>
   fst example_second_load = Inr () \<and>
   nm_enable_in_dialogs (snd example_second_load) = False \<and>
   nm_menu_endial (snd example_second_load) = Some True \<and>
   nm_state_on (snd example_second_load) = False \<and>
   nm_menu_switch (snd example_second_load) = Some True \<and>
   fst (nm_load example_consts_21 example_profile_invert_image
          (module_import example_theme example_host)) = Inl AttributeError"
proof -
  have second:
    "fst example_second_load = Inr ()"
    "nm_enable_in_dialogs (snd example_second_load) = False"
    "nm_menu_endial (snd example_second_load) = Some True"
    "nm_state_on (snd example_second_load) = False"
    "nm_menu_switch (snd example_second_load) = Some True"
    by (simp_all add: example_second_load_def nm_load_def Let_def
        nm_refresh_css_custom_colors_string_def example_profile_dialogs_off_def empty_profile_def
        profile_get_def and_then_def check_menu_iimage_def check_menu_ilatex_def
        check_menu_endial_def check_menu_tlatex_def setChecked_def example_first_load_facts)
  have third: "fst (nm_load example_consts_21 example_profile_invert_image
          (module_import example_theme example_host)) = Inl AttributeError"
    by (simp add: nm_load_def Let_def module_import_def
      nm_setup_menu_def nm_refresh_css_custom_colors_string_def empty_profile_def
      example_profile_invert_image_def
      profile_get_def and_then_def check_menu_iimage_def check_menu_ilatex_def
      check_menu_endial_def check_menu_tlatex_def setChecked_def nm_on_menu nm_on_keeps)
  show ?thesis
    using second third by (simp add: example_first_load_facts)
qed

subsection \<open>Transparent latex\<close>

lemma nm_make_latex_transparent_2_1:
  assumes "appVersion_2_1 c" "1 < length (pngCommands s)" "1 < length (svgCommands s)"
  shows "nm_make_latex_transparent c s =
     (Inr (), s\<lparr>pngCommands := (pngCommands s)[1 := transparent_dvipng],
               svgCommands := (svgCommands s)[1 := transparent_dvipng]\<rparr>)"
  using assms by (simp add: nm_make_latex_transparent_def set_item_1_def)

lemma nm_make_latex_transparent_2_0:
  assumes "\<not> appVersion_2_1 c" "1 < length (latexCmds s)"
  shows "nm_make_latex_transparent c s =
     (Inr (), s\<lparr>latexCmds := (latexCmds s)[1 := transparent_dvipng]\<rparr>)"
  using assms by (simp add: nm_make_latex_transparent_def set_item_1_def)

lemma nm_make_latex_transparent_flag:
  "nm_transparent_latex (snd (nm_make_latex_transparent c s)) = nm_transparent_latex s"
  by (simp add: nm_make_latex_transparent_def split: sum.splits)

lemma nm_tlatex_off:
  "nm_transparent_latex s \<Longrightarrow> nm_tlatex c s = (Inr (), s\<lparr>nm_transparent_latex := False\<rparr>)"
  by (simp add: nm_tlatex_def Let_def)

text \<open>
  C10.  \<^verbatim>\<open>nm_tlatex\<close> flips \<^verbatim>\<open>nm_transparent_latex\<close> on every call.  A call that turns the
  flag off changes nothing else.  A call that turns it on writes the command
  \<^verbatim>\<open>dvipng -D 200 -T tight -bg Transparent -z 9 tmp.dvi -o tmp.png\<close> at index 1 of the
  command lists of the host's version (\<^verbatim>\<open>pngCommands\<close> and \<^verbatim>\<open>svgCommands\<close> on Anki 2.1,
  \<^verbatim>\<open>latexCmds\<close> on Anki 2.0; each list it writes has an index 1), and a second call, which
  turns the flag off again, leaves that command in place.
\<close>

theorem nm_tlatex_flips_and_overwrites:
  "let transparent =
         [''dvipng'', ''-D'', ''200'', ''-T'', ''tight'', ''-bg'', ''Transparent'', ''-z'', ''9'',
          ''tmp.dvi'', ''-o'', ''tmp.png'']
   in nm_transparent_latex (snd (nm_tlatex c s)) = (\<not> nm_transparent_latex s) \<and>
      (nm_transparent_latex s \<longrightarrow>
         nm_tlatex c s = (Inr (), s\<lparr>nm_transparent_latex := False\<rparr>)) \<and>
      (\<not> nm_transparent_latex s \<and> appVersion_2_1 c \<and>
       1 < length (pngCommands s) \<and> 1 < length (svgCommands s) \<longrightarrow>
         nm_tlatex c s =
           (Inr (), s\<lparr>nm_transparent_latex := True,
                     pngCommands := (pngCommands s)[1 := transparent],
                     svgCommands := (svgCommands s)[1 := transparent]\<rparr>) \<and>
         snd (nm_tlatex c (snd (nm_tlatex c s))) =
           s\<lparr>nm_transparent_latex := False,
             pngCommands := (pngCommands s)[1 := transparent],
             svgCommands := (svgCommands s)[1 := transparent]\<rparr>) \<and>
      (\<not> nm_transparent_latex s \<and> \<not> appVersion_2_1 c \<and> 1 < length (latexCmds s) \<longrightarrow>
         nm_tlatex c s =
           (Inr (), s\<lparr>nm_transparent_latex := True,
                     latexCmds := (latexCmds s)[1 := transparent]\<rparr>) \<and>
         snd (nm_tlatex c (snd (nm_tlatex c s))) =
           s\<lparr>nm_transparent_latex := False,
             latexCmds := (latexCmds s)[1 := transparent]\<rparr>)"
proof -
  have lit: "[''dvipng'', ''-D'', ''200'', ''-T'', ''tight'', ''-bg'', ''Transparent'', ''-z'', ''9'', ''tmp.dvi'', ''-o'', ''tmp.png''] = transparent_dvipng"
    by (simp add: transparent_dvipng_def)
  have one: "nm_transparent_latex (snd (nm_tlatex c s)) = (\<not> nm_transparent_latex s)"
    by (simp add: nm_tlatex_def Let_def nm_make_latex_transparent_flag)
  have on21: "nm_tlatex c s =
      (Inr (), s\<lparr>nm_transparent_latex := True,
                pngCommands := (pngCommands s)[1 := transparent_dvipng],
                svgCommands := (svgCommands s)[1 := transparent_dvipng]\<rparr>)"
    if "\<not> nm_transparent_latex s" "appVersion_2_1 c" "1 < length (pngCommands s)"
      "1 < length (svgCommands s)"
    using that by (simp add: nm_tlatex_def Let_def nm_make_latex_transparent_2_1)
  have on20: "nm_tlatex c s =
      (Inr (), s\<lparr>nm_transparent_latex := True,
                latexCmds := (latexCmds s)[1 := transparent_dvipng]\<rparr>)"
    if "\<not> nm_transparent_latex s" "\<not> appVersion_2_1 c" "1 < length (latexCmds s)"
    using that by (simp add: nm_tlatex_def Let_def nm_make_latex_transparent_2_0)
  have second: "snd (nm_tlatex c (snd (nm_tlatex c s))) =
      (snd (nm_tlatex c s))\<lparr>nm_transparent_latex := False\<rparr>"
    if "\<not> nm_transparent_latex s"
  proof -
    have "nm_transparent_latex (snd (nm_tlatex c s))"
      using that one by simp
    then show ?thesis
      by (simp add: nm_tlatex_off)
  qed
  have twice21: "snd (nm_tlatex c (snd (nm_tlatex c s))) =
      s\<lparr>nm_transparent_latex := False,
        pngCommands := (pngCommands s)[1 := transparent_dvipng],
        svgCommands := (svgCommands s)[1 := transparent_dvipng]\<rparr>"
    if "\<not> nm_transparent_latex s" "appVersion_2_1 c" "1 < length (pngCommands s)"
      "1 < length (svgCommands s)"
  proof -
    have "snd (nm_tlatex c (snd (nm_tlatex c s))) =
        (snd (nm_tlatex c s))\<lparr>nm_transparent_latex := False\<rparr>"
      by (rule second [OF that(1)])
    also have "\<dots> = s\<lparr>nm_transparent_latex := False,
        pngCommands := (pngCommands s)[1 := transparent_dvipng],
        svgCommands := (svgCommands s)[1 := transparent_dvipng]\<rparr>"
      by (simp add: on21 [OF that])
    finally show ?thesis .
  qed
  have twice20: "snd (nm_tlatex c (snd (nm_tlatex c s))) =
      s\<lparr>nm_transparent_latex := False,
        latexCmds := (latexCmds s)[1 := transparent_dvipng]\<rparr>"
    if "\<not> nm_transparent_latex s" "\<not> appVersion_2_1 c" "1 < length (latexCmds s)"
  proof -
    have "snd (nm_tlatex c (snd (nm_tlatex c s))) =
        (snd (nm_tlatex c s))\<lparr>nm_transparent_latex := False\<rparr>"
      by (rule second [OF that(1)])
    also have "\<dots> = s\<lparr>nm_transparent_latex := False,
        latexCmds := (latexCmds s)[1 := transparent_dvipng]\<rparr>"
      by (simp add: on20 [OF that])
    finally show ?thesis .
  qed
  show ?thesis
    unfolding Let_def lit
    using one nm_tlatex_off [of s c] on21 twice21 on20 twice20 by blast
qed

theorem nm_tlatex_flips_and_overwrites_witness:
  "pngCommands (snd (nm_tlatex example_consts_21 (example_day_state example_consts_21))) =
     [[''latex'', ''tmp.tex''],
      [''dvipng'', ''-D'', ''200'', ''-T'', ''tight'', ''-bg'', ''Transparent'', ''-z'', ''9'',
       ''tmp.dvi'', ''-o'', ''tmp.png'']] \<and>
   nm_transparent_latex
     (snd (nm_tlatex example_consts_21 (example_day_state example_consts_21))) \<and>
   svgCommands (snd (nm_tlatex example_consts_21
       (snd (nm_tlatex example_consts_21 (example_day_state example_consts_21))))) =
     [[''latex'', ''tmp.tex''],
      [''dvipng'', ''-D'', ''200'', ''-T'', ''tight'', ''-bg'', ''Transparent'', ''-z'', ''9'',
       ''tmp.dvi'', ''-o'', ''tmp.png'']] \<and>
   \<not> nm_transparent_latex (snd (nm_tlatex example_consts_21
       (snd (nm_tlatex example_consts_21 (example_day_state example_consts_21))))) \<and>
   latexCmds (snd (nm_tlatex example_consts_20 (example_day_state example_consts_20))) =
     [[''latex'', ''tmp.tex''],
      [''dvipng'', ''-D'', ''200'', ''-T'', ''tight'', ''-bg'', ''Transparent'', ''-z'', ''9'',
       ''tmp.dvi'', ''-o'', ''tmp.png'']] \<and>
   nm_tlatex example_consts_21
     ((example_day_state example_consts_21)\<lparr>nm_transparent_latex := True\<rparr>) =
     (Inr (), (example_day_state example_consts_21)\<lparr>nm_transparent_latex := False\<rparr>)"
proof -
  have pre21: "\<not> nm_transparent_latex (example_day_state example_consts_21) \<and>
      appVersion_2_1 example_consts_21 \<and>
      1 < length (pngCommands (example_day_state example_consts_21)) \<and>
      1 < length (svgCommands (example_day_state example_consts_21))"
    by (simp add: example_day_state_eq example_host_def example_consts_21_def
        capture_defaults_def)
  have pre20: "\<not> nm_transparent_latex (example_day_state example_consts_20) \<and>
      \<not> appVersion_2_1 example_consts_20 \<and>
      1 < length (latexCmds (example_day_state example_consts_20))"
    by (simp add: example_day_state_eq example_host_def example_consts_20_def
        capture_defaults_def)
  have cmds: "pngCommands (example_day_state example_consts_21) =
       [[''latex'', ''tmp.tex''], [''dvipng'', ''tmp.dvi'']]"
    "svgCommands (example_day_state example_consts_21) =
       [[''latex'', ''tmp.tex''], [''dvisvgm'', ''tmp.dvi'']]"
    "latexCmds (example_day_state example_consts_20) =
       [[''latex'', ''tmp.tex''], [''dvipng'', ''tmp.dvi'']]"
    by (simp_all add: example_day_state_eq example_host_def)
  note i21 = nm_tlatex_flips_and_overwrites
      [of example_consts_21 "example_day_state example_consts_21", unfolded Let_def]
  note i20 = nm_tlatex_flips_and_overwrites
      [of example_consts_20 "example_day_state example_consts_20", unfolded Let_def]
  note ion = nm_tlatex_flips_and_overwrites
      [of example_consts_21 "(example_day_state example_consts_21)\<lparr>nm_transparent_latex := True\<rparr>",
       unfolded Let_def]
  note c21 = i21 [THEN conjunct2, THEN conjunct2, THEN conjunct1, rule_format, OF pre21]
  note c20 = i20 [THEN conjunct2, THEN conjunct2, THEN conjunct2, rule_format, OF pre20]
  have a: "pngCommands (snd (nm_tlatex example_consts_21 (example_day_state example_consts_21))) =
     [[''latex'', ''tmp.tex''],
      [''dvipng'', ''-D'', ''200'', ''-T'', ''tight'', ''-bg'', ''Transparent'', ''-z'', ''9'',
       ''tmp.dvi'', ''-o'', ''tmp.png'']]"
    "nm_transparent_latex
       (snd (nm_tlatex example_consts_21 (example_day_state example_consts_21)))"
    unfolding c21 [THEN conjunct1] by (simp_all add: cmds)
  have b: "svgCommands (snd (nm_tlatex example_consts_21
       (snd (nm_tlatex example_consts_21 (example_day_state example_consts_21))))) =
     [[''latex'', ''tmp.tex''],
      [''dvipng'', ''-D'', ''200'', ''-T'', ''tight'', ''-bg'', ''Transparent'', ''-z'', ''9'',
       ''tmp.dvi'', ''-o'', ''tmp.png'']]"
    "\<not> nm_transparent_latex (snd (nm_tlatex example_consts_21
       (snd (nm_tlatex example_consts_21 (example_day_state example_consts_21)))))"
    unfolding c21 [THEN conjunct2] by (simp_all add: cmds)
  have d: "latexCmds (snd (nm_tlatex example_consts_20 (example_day_state example_consts_20))) =
     [[''latex'', ''tmp.tex''],
      [''dvipng'', ''-D'', ''200'', ''-T'', ''tight'', ''-bg'', ''Transparent'', ''-z'', ''9'',
       ''tmp.dvi'', ''-o'', ''tmp.png'']]"
    unfolding c20 [THEN conjunct1] by (simp add: cmds)
  have e: "nm_tlatex example_consts_21
     ((example_day_state example_consts_21)\<lparr>nm_transparent_latex := True\<rparr>) =
     (Inr (), (example_day_state example_consts_21)\<lparr>nm_transparent_latex := False\<rparr>)"
    using ion [THEN conjunct2, THEN conjunct1] by simp
  show ?thesis
    using a b d e by blast
qed

section \<open>Properties of Night Mode 2.x\<close>

subsection \<open>The styling manager\<close>

lemma foldl_keeps_obs:
  assumes "\<forall>x\<in>set xs. \<forall>h. obs (f x h) = obs h"
  shows "obs (foldl (\<lambda>h x. f x h) h xs) = obs h"
  using assms by (induction xs arbitrary: h) simp_all

lemma foldl_sets_obs:
  assumes "\<forall>x\<in>set xs. (\<forall>h. obs (f x h) = v) \<or> (\<forall>h. obs (f x h) = obs h)"
    and "obs h = v \<or> (\<exists>x\<in>set xs. \<forall>h. obs (f x h) = v)"
  shows "obs (foldl (\<lambda>h x. f x h) h xs) = v"
  using assms
proof (induction xs arbitrary: h)
  case Nil
  then show ?case by simp
next
  case (Cons x xs)
  have step: "obs (f x h) = v \<or> (\<exists>y\<in>set xs. \<forall>h. obs (f y h) = v)"
    using Cons.prems by (metis list.set_intros(1) set_ConsD)
  have rest: "\<forall>y\<in>set xs. (\<forall>h. obs (f y h) = v) \<or> (\<forall>h. obs (f y h) = obs h)"
    using Cons.prems(1) by simp
  show ?case
    using Cons.IH [OF rest step] by simp
qed

text \<open>
  C7.  Let \<open>obs\<close> be any part of the host's state.  If no styler outside
  \<^verbatim>\<open>disabled_stylers\<close> changes it when replacing, \<^verbatim>\<open>replace\<close> leaves it unchanged: what only
  disabled stylers would write stays as it is.  If a styler \<open>d\<close> outside
  \<^verbatim>\<open>disabled_stylers\<close> sets it to \<open>v\<close> and each other active styler sets it to \<open>v\<close> or
  leaves it alone, it is \<open>v\<close> after \<^verbatim>\<open>replace\<close>.  And if a styler \<open>d\<close>, disabled or not,
  restores it to \<open>v\<close> and each other styler restores it to \<open>v\<close> or leaves it alone, it is
  \<open>v\<close> after \<^verbatim>\<open>restore\<close>.
\<close>

theorem replace_skips_disabled_restore_all:
  "((\<forall>st\<in>set (stylers sm). name st \<notin> set (disabled_stylers sm) \<longrightarrow>
        (\<forall>h. obs (replace_attributes st h) = obs h)) \<longrightarrow>
      obs (replace sm h) = obs h) \<and>
   (d \<in> set (stylers sm) \<and> name d \<notin> set (disabled_stylers sm) \<and>
      (\<forall>h. obs (replace_attributes d h) = v) \<and>
      (\<forall>st\<in>set (stylers sm). name st \<notin> set (disabled_stylers sm) \<longrightarrow>
        (\<forall>h. obs (replace_attributes st h) = v) \<or>
        (\<forall>h. obs (replace_attributes st h) = obs h)) \<longrightarrow>
      obs (replace sm h) = v) \<and>
   (d \<in> set (stylers sm) \<and> (\<forall>h. obs (restore_attributes d h) = v) \<and>
      (\<forall>st\<in>set (stylers sm).
        (\<forall>h. obs (restore_attributes st h) = v) \<or>
        (\<forall>h. obs (restore_attributes st h) = obs h)) \<longrightarrow>
      obs (restore sm h) = v)"
proof (intro conjI impI)
  assume "\<forall>st\<in>set (stylers sm). name st \<notin> set (disabled_stylers sm) \<longrightarrow>
        (\<forall>h. obs (replace_attributes st h) = obs h)"
  then have "\<forall>st\<in>set (active_stylers sm). \<forall>h. obs (replace_attributes st h) = obs h"
    by (simp add: active_stylers_def)
  then show "obs (replace sm h) = obs h"
    unfolding replace_def by (rule foldl_keeps_obs)
next
  assume a: "d \<in> set (stylers sm) \<and> name d \<notin> set (disabled_stylers sm) \<and>
      (\<forall>h. obs (replace_attributes d h) = v) \<and>
      (\<forall>st\<in>set (stylers sm). name st \<notin> set (disabled_stylers sm) \<longrightarrow>
        (\<forall>h. obs (replace_attributes st h) = v) \<or>
        (\<forall>h. obs (replace_attributes st h) = obs h))"
  then have all: "\<forall>st\<in>set (active_stylers sm).
      (\<forall>h. obs (replace_attributes st h) = v) \<or> (\<forall>h. obs (replace_attributes st h) = obs h)"
    by (simp add: active_stylers_def)
  from a have "d \<in> set (active_stylers sm)"
    by (simp add: active_stylers_def)
  with a have one: "obs h = v \<or>
      (\<exists>st\<in>set (active_stylers sm). \<forall>h. obs (replace_attributes st h) = v)"
    by blast
  show "obs (replace sm h) = v"
    unfolding replace_def by (rule foldl_sets_obs [OF all one])
next
  assume a: "d \<in> set (stylers sm) \<and> (\<forall>h. obs (restore_attributes d h) = v) \<and>
      (\<forall>st\<in>set (stylers sm).
        (\<forall>h. obs (restore_attributes st h) = v) \<or>
        (\<forall>h. obs (restore_attributes st h) = obs h))"
  then have all: "\<forall>st\<in>set (stylers sm).
      (\<forall>h. obs (restore_attributes st h) = v) \<or> (\<forall>h. obs (restore_attributes st h) = obs h)"
    by simp
  from a have one: "obs h = v \<or>
      (\<exists>st\<in>set (stylers sm). \<forall>h. obs (restore_attributes st h) = v)"
    by blast
  show "obs (restore sm h) = v"
    unfolding restore_def by (rule foldl_sets_obs [OF all one])
qed

theorem replace_skips_disabled_restore_all_witness:
  "snd (replace example_styling_manager (''day'', ''day'')) = ''day'' \<and>
   fst (replace example_styling_manager (''day'', ''day'')) = ''night'' \<and>
   snd (restore example_styling_manager (''night'', ''night'')) = ''day''"
proof -
  have 1: "snd (replace example_styling_manager (''day'', ''day'')) = snd (''day'', ''day'')"
    using replace_skips_disabled_restore_all
      [of example_styling_manager snd "(''day'', ''day'')" example_reviewer_styler "''day''"]
    by (simp add: example_styling_manager_def example_toolbar_styler_def
        example_reviewer_styler_def)
  have 2: "fst (replace example_styling_manager (''day'', ''day'')) = ''night''"
    using replace_skips_disabled_restore_all
      [of example_styling_manager fst "(''day'', ''day'')" example_toolbar_styler "''night''"]
    by (simp add: example_styling_manager_def example_toolbar_styler_def
        example_reviewer_styler_def)
  have 3: "snd (restore example_styling_manager (''night'', ''night'')) = ''day''"
    using replace_skips_disabled_restore_all
      [of example_styling_manager snd "(''night'', ''night'')" example_reviewer_styler "''day''"]
    by (simp add: example_styling_manager_def example_toolbar_styler_def
        example_reviewer_styler_def)
  show ?thesis using 1 2 3 by simp
qed

subsection \<open>The injected script\<close>

lemma no_tag_in_scripts:
  "CHR ''<'' \<notin> set add_night_mode_class_js"
  "CHR ''<'' \<notin> set remove_night_mode_class_js"
  by (simp_all add: add_night_mode_class_js_def remove_night_mode_class_js_def)

text \<open>
  C9.  The result of \<^verbatim>\<open>night_class_injection\<close> is one \<^verbatim>\<open><script>\<close> element followed by the
  given HTML, unchanged; the card and the context play no part.  With the state flag on
  the script is the one that appends \<^verbatim>\<open>night_mode\<close> to the class of the document's body
  when it is not there; with the flag off it is the one that takes \<^verbatim>\<open>night_mode\<close> out of
  that class when it is there.  The two scripts differ, and neither holds a \<^verbatim>\<open><\<close>, so
  the element ends at the inserted closing tag.
\<close>

theorem night_class_injection_prefix:
  \<open>night_class_injection True html card' context =
     ''<script>'' @
     (''\<newline>'' @
      ''            function add_night_mode_class(){\<newline>'' @
      ''                current_classes = document.body.className;\<newline>'' @
      ''                if(current_classes.indexOf("night_mode") == -1)\<newline>'' @
      ''                {\<newline>'' @
      ''                    '' @
      ''document.body.className += " night_mode";'' @
      ''\<newline>'' @
      ''                }\<newline>'' @
      ''            }\<newline>'' @
      ''            // explanation of setTimeout use:\<newline>'' @
      ''            // callback defined in _showQuestion of reviewer.js would otherwise overwrite\<newline>'' @
      ''            // the newly set body class; in order to prevent that the function execution\<newline>'' @
      ''            // is being placed on the end of execution queue (hence time = 0)\<newline>'' @
      ''            setTimeout(add_night_mode_class, 0)\<newline>'' @
      ''            '') @
     ''</script>'' @ html \<and>
   night_class_injection False html card' context =
     ''<script>'' @
     (''\<newline>'' @
      ''            function remove_night_mode_class(){\<newline>'' @
      ''                current_classes = document.body.className;\<newline>'' @
      ''                if(current_classes.indexOf("night_mode") != -1)\<newline>'' @
      ''                {\<newline>'' @
      ''                    '' @
      ''document.body.className = current_classes.replace("night_mode","");'' @
      ''\<newline>'' @
      ''                }\<newline>'' @
      ''            }\<newline>'' @
      ''            setTimeout(remove_night_mode_class, 0)\<newline>'' @
      ''            '') @
     ''</script>'' @ html \<and>
   night_class_injection state_on html card' context =
     ''<script>'' @
     (if state_on then add_night_mode_class_js else remove_night_mode_class_js) @
     ''</script>'' @ html \<and>
   CHR ''<'' \<notin> set (if state_on then add_night_mode_class_js else remove_night_mode_class_js) \<and>
   add_night_mode_class_js \<noteq> remove_night_mode_class_js\<close>
proof -
  have differ: "add_night_mode_class_js \<noteq> remove_night_mode_class_js"
    by (simp add: add_night_mode_class_js_def remove_night_mode_class_js_def)
  have on: \<open>night_class_injection True html card' context =
     ''<script>'' @
     (''\<newline>'' @
      ''            function add_night_mode_class(){\<newline>'' @
      ''                current_classes = document.body.className;\<newline>'' @
      ''                if(current_classes.indexOf("night_mode") == -1)\<newline>'' @
      ''                {\<newline>'' @
      ''                    '' @
      ''document.body.className += " night_mode";'' @
      ''\<newline>'' @
      ''                }\<newline>'' @
      ''            }\<newline>'' @
      ''            // explanation of setTimeout use:\<newline>'' @
      ''            // callback defined in _showQuestion of reviewer.js would otherwise overwrite\<newline>'' @
      ''            // the newly set body class; in order to prevent that the function execution\<newline>'' @
      ''            // is being placed on the end of execution queue (hence time = 0)\<newline>'' @
      ''            setTimeout(add_night_mode_class, 0)\<newline>'' @
      ''            '') @
     ''</script>'' @ html\<close>
    by (simp add: night_class_injection_def add_night_mode_class_js_def)
  have off: \<open>night_class_injection False html card' context =
     ''<script>'' @
     (''\<newline>'' @
      ''            function remove_night_mode_class(){\<newline>'' @
      ''                current_classes = document.body.className;\<newline>'' @
      ''                if(current_classes.indexOf("night_mode") != -1)\<newline>'' @
      ''                {\<newline>'' @
      ''                    '' @
      ''document.body.className = current_classes.replace("night_mode","");'' @
      ''\<newline>'' @
      ''                }\<newline>'' @
      ''            }\<newline>'' @
      ''            setTimeout(remove_night_mode_class, 0)\<newline>'' @
      ''            '') @
     ''</script>'' @ html\<close>
    by (simp add: night_class_injection_def remove_night_mode_class_js_def)
  have either: "night_class_injection state_on html card' context =
     ''<script>'' @
     (if state_on then add_night_mode_class_js else remove_night_mode_class_js) @
     ''</script>'' @ html"
    by (simp add: night_class_injection_def)
  show ?thesis
    using differ on off either no_tag_in_scripts by simp
qed

end
